theory Spec2Isabelle
  imports Complex_Main
begin

section \<open>Python values, exceptions and snapshots\<close>

text \<open>
  The integration is Python. The values it moves around are the entries of the
  dictionaries returned by the external BMS client: integers (milli-volts,
  milli-amperes, counters), floats (temperatures), booleans (FET and balancing
  flags), strings (version and model strings) and \<open>None\<close>.

  Python floats are idealised as exact rationals: \<open>/\<close> is exact division and
  \<open>round\<close> rounds the exact quotient (half to even). Overflow, NaN and the binary
  representation error of a float are outside this model.
\<close>

datatype pyval = PyInt int | PyFloat rat | PyBool bool | PyStr string | PyNone

text \<open>Every exception kind that the modelled code can raise or let through.\<close>

datatype exn =
    BMSError
  | SerialException
  | KeyError
  | TypeError
  | ZeroDivisionError
  | UpdateFailed

type_synonym pydict = "string \<rightharpoonup> pyval"

text \<open>
  The dictionary built by \<open>sync_update_data\<close>: exactly the two entries
  \<open>COORDINATOR_DATA_BASIC_INFO\<close> and \<open>COORDINATOR_DATA_CELL_INFO\<close>.
\<close>

record snapshot =
  basic_info :: pydict
  cell_info :: pydict

text \<open>Sequencing of computations that may raise: the first exception wins.\<close>

definition and_then :: "exn + 'a \<Rightarrow> ('a \<Rightarrow> exn + 'b) \<Rightarrow> exn + 'b" where
  "and_then r f = (case r of Inl e \<Rightarrow> Inl e | Inr x \<Rightarrow> f x)"

text \<open>\<open>d[k]\<close> on a dictionary raises \<open>KeyError\<close> for a missing key.\<close>

definition getitem :: "pydict \<Rightarrow> string \<Rightarrow> exn + pyval" where
  "getitem d k = (case d k of None \<Rightarrow> Inl KeyError | Some v \<Rightarrow> Inr v)"

text \<open>The numeric reading of a value; \<open>bool\<close> is a subclass of \<open>int\<close> in Python.\<close>

fun as_number :: "pyval \<Rightarrow> rat option" where
  "as_number (PyInt i) = Some (of_int i)"
| "as_number (PyFloat q) = Some q"
| "as_number (PyBool b) = Some (if b then 1 else 0)"
| "as_number (PyStr s) = None"
| "as_number PyNone = None"

text \<open>Truth value testing, as \<open>not x\<close>, \<open>if x\<close> and \<open>while x\<close> apply it.\<close>

fun truthy :: "pyval \<Rightarrow> bool" where
  "truthy (PyInt i) = (i \<noteq> 0)"
| "truthy (PyFloat q) = (q \<noteq> 0)"
| "truthy (PyBool b) = b"
| "truthy (PyStr s) = (s \<noteq> [])"
| "truthy PyNone = False"

text \<open>Python's \<open>==\<close>: numbers compare by value across int, float and bool.\<close>

fun py_eq :: "pyval \<Rightarrow> pyval \<Rightarrow> bool" where
  "py_eq (PyStr s) (PyStr t) = (s = t)"
| "py_eq PyNone PyNone = True"
| "py_eq a b = (case (as_number a, as_number b) of (Some x, Some y) \<Rightarrow> x = y | _ \<Rightarrow> False)"

text \<open>True division \<open>value / divisor\<close> by an integer divisor.\<close>

definition py_truediv :: "pyval \<Rightarrow> int \<Rightarrow> exn + rat" where
  "py_truediv v d =
     (case as_number v of
        None \<Rightarrow> Inl TypeError
      | Some q \<Rightarrow> if d = 0 then Inl ZeroDivisionError else Inr (q / of_int d))"

text \<open>\<open>round(x, ndigits)\<close>: to the nearest multiple of \<open>10 ** -ndigits\<close>, ties to even.\<close>

definition round_half_even :: "rat \<Rightarrow> int" where
  "round_half_even x =
     (let f = \<lfloor>x\<rfloor>; r = x - of_int f
      in if r < 1 / 2 then f
         else if 1 / 2 < r then f + 1
         else if even f then f else f + 1)"

definition py_round :: "rat \<Rightarrow> nat \<Rightarrow> rat" where
  "py_round x ndigits = of_int (round_half_even (x * 10 ^ ndigits)) / 10 ^ ndigits"

section \<open>Sensor projections (sensor.py)\<close>

definition BATTERY_VOLTAGE :: string where "BATTERY_VOLTAGE = ''pack_mv''"
definition BATTERY_CURRENT :: string where "BATTERY_CURRENT = ''pack_ma''"
definition CHARGING_ENABLED :: string where "CHARGING_ENABLED = ''chg_fet_en''"
definition DISCHARGING_ENABLED :: string where "DISCHARGING_ENABLED = ''dsg_fet_en''"






text \<open>
  The sensor entities. A \<open>JBDBasicInfoSensor\<close> is determined by its key and its
  divisor, a \<open>JBDCellVoltageSensor\<close> by its key; the calculated sensors have no
  parameter. (Names, units and device classes play no part in the values.)
\<close>

datatype sensor =
    JBDBasicInfoSensor string int
  | JBDCalculatedPowerSensor
  | JBDCalculatedDischargePowerSensor
  | JBDCalculatedChargePowerSensor
  | JBDCellVoltageSensor string



text \<open>
  The \<open>native_value\<close> property of each sensor class, on the snapshot \<open>S\<close> that
  \<open>self.coordinator.data\<close> holds when it is read.

  \<open>JBDBasicInfoSensor\<close>:
  \<^verbatim>\<open>
  value = self.coordinator.data[COORDINATOR_DATA_BASIC_INFO][self.entity_description.key]
  return value if self.divisor == 1 else round(value / self.divisor, 2)
  \<close>
  The three calculated sensors each compute
  \<^verbatim>\<open>
  battery_voltage_mv = self.coordinator.data[COORDINATOR_DATA_BASIC_INFO][BATTERY_VOLTAGE]
  battery_current_ma = self.coordinator.data[COORDINATOR_DATA_BASIC_INFO][BATTERY_CURRENT]
  battery_power_watts = (battery_voltage_mv / 1000) * (battery_current_ma / 1000)
  \<close>
  and return, in turn, the product, \<open>-p if p < 0 else 0\<close> and \<open>p if p > 0 else 0\<close>
  (the \<open>0\<close> of the else branches is the integer zero).

  \<open>JBDCellVoltageSensor\<close>:
  \<^verbatim>\<open>
  cell_mv = self.coordinator.data[COORDINATOR_DATA_CELL_INFO][self.entity_description.key]
  return round(cell_mv / 1000, 3)
  \<close>
\<close>

fun native_value :: "sensor \<Rightarrow> snapshot \<Rightarrow> exn + pyval" where
  "native_value (JBDBasicInfoSensor key divisor) S =
     and_then (getitem (basic_info S) key) (\<lambda>v.
       if divisor = 1 then Inr v
       else and_then (py_truediv v divisor) (\<lambda>q. Inr (PyFloat (py_round q 2))))"
| "native_value JBDCalculatedPowerSensor S =
     and_then (getitem (basic_info S) BATTERY_VOLTAGE) (\<lambda>battery_voltage_mv.
     and_then (getitem (basic_info S) BATTERY_CURRENT) (\<lambda>battery_current_ma.
     and_then (py_truediv battery_voltage_mv 1000) (\<lambda>volts.
     and_then (py_truediv battery_current_ma 1000) (\<lambda>amperes.
       Inr (PyFloat (volts * amperes))))))"
| "native_value JBDCalculatedDischargePowerSensor S =
     and_then (getitem (basic_info S) BATTERY_VOLTAGE) (\<lambda>battery_voltage_mv.
     and_then (getitem (basic_info S) BATTERY_CURRENT) (\<lambda>battery_current_ma.
     and_then (py_truediv battery_voltage_mv 1000) (\<lambda>volts.
     and_then (py_truediv battery_current_ma 1000) (\<lambda>amperes.
       let battery_power_watts = volts * amperes
       in Inr (if battery_power_watts < 0 then PyFloat (- battery_power_watts)
               else PyInt 0)))))"
| "native_value JBDCalculatedChargePowerSensor S =
     and_then (getitem (basic_info S) BATTERY_VOLTAGE) (\<lambda>battery_voltage_mv.
     and_then (getitem (basic_info S) BATTERY_CURRENT) (\<lambda>battery_current_ma.
     and_then (py_truediv battery_voltage_mv 1000) (\<lambda>volts.
     and_then (py_truediv battery_current_ma 1000) (\<lambda>amperes.
       let battery_power_watts = volts * amperes
       in Inr (if 0 < battery_power_watts then PyFloat battery_power_watts
               else PyInt 0)))))"
| "native_value (JBDCellVoltageSensor key) S =
     and_then (getitem (cell_info S) key) (\<lambda>cell_mv.
       and_then (py_truediv cell_mv 1000) (\<lambda>q. Inr (PyFloat (py_round q 3))))"

text \<open>
  The number a projection shows: \<open>None\<close> when reading it raises or when the value is
  not a number.
\<close>

definition shown_number :: "exn + pyval \<Rightarrow> rat option" where
  "shown_number r = (case r of Inl e \<Rightarrow> None | Inr v \<Rightarrow> as_number v)"

section \<open>The device client (external library)\<close>

text \<open>
  All device I/O goes through the external \<open>JBD\<close> client. The model records every call
  made to the client, in order, and takes what the device answers as a parameter: a
  \<open>device\<close> gives, for the calls made so far, the outcome of the next call (an exception
  or a result). \<open>close()\<close> does not raise.
\<close>

datatype call =
    Open
  | Close
  | ReadBasicInfo
  | ReadCellInfo
  | ChgDsgEnable pyval pyval
  | WriteReg string int

record device =
  open_reply :: "call list \<Rightarrow> exn option"
  readBasicInfo_reply :: "call list \<Rightarrow> exn + pydict"
  readCellInfo_reply :: "call list \<Rightarrow> exn + pydict"
  chgDsgEnable_reply :: "call list \<Rightarrow> pyval \<Rightarrow> pyval \<Rightarrow> exn option"
  writeReg_reply :: "call list \<Rightarrow> string \<Rightarrow> int \<Rightarrow> exn option"

text \<open>
  A computation that talks to the client: from the calls made so far to an exception
  or a result, and the calls made afterwards.
\<close>

type_synonym 'a io = "call list \<Rightarrow> (exn + 'a) \<times> call list"

definition io_return :: "'a \<Rightarrow> 'a io" where
  "io_return x h = (Inr x, h)"

definition io_raise :: "exn \<Rightarrow> 'a io" where
  "io_raise e h = (Inl e, h)"

definition io_bind :: "'a io \<Rightarrow> ('a \<Rightarrow> 'b io) \<Rightarrow> 'b io" where
  "io_bind m f h = (case m h of (Inl e, h') \<Rightarrow> (Inl e, h') | (Inr x, h') \<Rightarrow> f x h')"

text \<open>
  \<open>try: m finally: fin\<close>. The finaliser runs on every exit of \<open>m\<close>; the outcome of \<open>m\<close>
  stands unless the finaliser itself raises.
\<close>

definition try_finally :: "'a io \<Rightarrow> unit io \<Rightarrow> 'a io" where
  "try_finally m fin h =
     (case m h of
        (r, h') \<Rightarrow> (case fin h' of (Inl e, h'') \<Rightarrow> (Inl e, h'') | (Inr u, h'') \<Rightarrow> (r, h'')))"

text \<open>\<open>try: m except BMSError: handler\<close>; every other exception passes through.\<close>

definition except_BMSError :: "'a io \<Rightarrow> 'a io \<Rightarrow> 'a io" where
  "except_BMSError m handler h =
     (case m h of
        (Inl e, h') \<Rightarrow> if e = BMSError then handler h' else (Inl e, h')
      | (Inr x, h') \<Rightarrow> (Inr x, h'))"

definition raised :: "exn option \<Rightarrow> exn + unit" where
  "raised r = (case r of None \<Rightarrow> Inr () | Some e \<Rightarrow> Inl e)"

definition client_open :: "device \<Rightarrow> unit io" where
  "client_open dev h = (raised (open_reply dev h), h @ [Open])"

definition client_close :: "device \<Rightarrow> unit io" where
  "client_close dev h = (Inr (), h @ [Close])"

definition client_readBasicInfo :: "device \<Rightarrow> pydict io" where
  "client_readBasicInfo dev h = (readBasicInfo_reply dev h, h @ [ReadBasicInfo])"

definition client_readCellInfo :: "device \<Rightarrow> pydict io" where
  "client_readCellInfo dev h = (readCellInfo_reply dev h, h @ [ReadCellInfo])"

definition client_chgDsgEnable :: "device \<Rightarrow> pyval \<Rightarrow> pyval \<Rightarrow> unit io" where
  "client_chgDsgEnable dev chg dsg h =
     (raised (chgDsgEnable_reply dev h chg dsg), h @ [ChgDsgEnable chg dsg])"

definition client_writeReg :: "device \<Rightarrow> string \<Rightarrow> int \<Rightarrow> unit io" where
  "client_writeReg dev regname v h =
     (raised (writeReg_reply dev h regname v), h @ [WriteReg regname v])"

text \<open>
  The link is open after an \<open>open()\<close> that no \<open>close()\<close> has followed.
\<close>

definition link_open :: "call list \<Rightarrow> bool" where
  "link_open h = foldl (\<lambda>b c. case c of Open \<Rightarrow> True | Close \<Rightarrow> False | _ \<Rightarrow> b) False h"

section \<open>The poll cycle (__init__.py)\<close>

text \<open>
  \<^verbatim>\<open>
  def sync_update_data() -> dict:
      try:
          client.open()
          basic_info = client.readBasicInfo()
          cell_info = client.readCellInfo()
      finally:
          client.close()
      return {COORDINATOR_DATA_BASIC_INFO: basic_info,
              COORDINATOR_DATA_CELL_INFO: cell_info}
  \<close>
\<close>

definition sync_update_data :: "device \<Rightarrow> snapshot io" where
  "sync_update_data dev =
     io_bind
       (try_finally
          (io_bind (client_open dev) (\<lambda>u.
           io_bind (client_readBasicInfo dev) (\<lambda>basic.
           io_bind (client_readCellInfo dev) (\<lambda>cell.
             io_return (basic, cell)))))
          (client_close dev))
       (\<lambda>(basic, cell). io_return \<lparr>basic_info = basic, cell_info = cell\<rparr>)"

text \<open>
  \<^verbatim>\<open>
  async def async_update_data() -> dict:
      try:
          return await hass.async_add_executor_job(sync_update_data)
      except BMSError:
          raise UpdateFailed("BMS communication error")
  \<close>
\<close>

definition async_update_data :: "device \<Rightarrow> snapshot io" where
  "async_update_data dev = except_BMSError (sync_update_data dev) (io_raise UpdateFailed)"

text \<open>
  The coordinator object of the host platform, as far as the integration reads it:
  the snapshot last published (\<open>coordinator.data\<close>) and the outcome of the last refresh.
  The entities are created after the first refresh has succeeded (setup fails
  otherwise), so the coordinator they read always holds a snapshot.
\<close>

record coordinator =
  data :: snapshot
  last_update_success :: bool

text \<open>
  Modelled from the spec: the refresh of the host platform's \<open>DataUpdateCoordinator\<close>,
  which is not part of the repository. Section 4.1: one call of the update method;
  a successful cycle publishes its snapshot, a failed one publishes nothing and
  leaves the previously published snapshot current. The refresh itself does not raise.
\<close>

definition async_refresh :: "device \<Rightarrow> coordinator \<Rightarrow> call list \<Rightarrow> coordinator \<times> call list" where
  "async_refresh dev c h =
     (case async_update_data dev h of
        (Inl e, h') \<Rightarrow> (c\<lparr>last_update_success := False\<rparr>, h')
      | (Inr s, h') \<Rightarrow> (c\<lparr>data := s, last_update_success := True\<rparr>, h'))"

text \<open>
  A device for examples: it accepts every call and reports the same basic info and
  one cell at 3300 mV on every read.
\<close>

definition steady_device :: "pydict \<Rightarrow> device" where
  "steady_device info =
     \<lparr>open_reply = (\<lambda>h. None),
      readBasicInfo_reply = (\<lambda>h. Inr info),
      readCellInfo_reply = (\<lambda>h. Inr [''cell0_mv'' \<mapsto> PyInt 3300]),
      chgDsgEnable_reply = (\<lambda>h chg dsg. None),
      writeReg_reply = (\<lambda>h regname v. None)\<rparr>"

section \<open>The charge and discharge toggles (switch.py)\<close>

text \<open>
  The settle loop that the four toggle methods share, up to the key read and the sense
  of the test:
  \<^verbatim>\<open>
  attempts = 5
  while (
      not self.client.readBasicInfo()[JBDBasicInfoSensor.CHARGING_ENABLED]
      and attempts > 0
  ):
      attempts -= 1
  \<close>
  (\<open>async_turn_off\<close> tests the flag without \<open>not\<close>). Python evaluates the left operand
  of \<open>and\<close> first: every test of the loop condition reads basic info from the device,
  also the test that ends the loop because \<open>attempts\<close> has reached zero.
  \<open>wait_for_on\<close> is \<open>True\<close> for the loops of \<open>async_turn_on\<close>.
\<close>

function while_not_settled :: "device \<Rightarrow> string \<Rightarrow> bool \<Rightarrow> int \<Rightarrow> unit io" where
  "while_not_settled dev key wait_for_on attempts h =
     (case client_readBasicInfo dev h of
        (Inl e, h') \<Rightarrow> (Inl e, h')
      | (Inr info, h') \<Rightarrow>
          (case getitem info key of
             Inl e \<Rightarrow> (Inl e, h')
           | Inr flag \<Rightarrow>
               if (if wait_for_on then \<not> truthy flag else truthy flag) \<and> 0 < attempts
               then while_not_settled dev key wait_for_on (attempts - 1) h'
               else (Inr (), h')))"
  by pat_completeness auto
termination
  by (relation "measure (\<lambda>(dev, key, wait_for_on, attempts, h). nat attempts)") auto

declare while_not_settled.simps [simp del]

text \<open>
  \<open>JBDChargeToggle.async_turn_on\<close>:
  \<^verbatim>\<open>
  discharge_enabled = self.coordinator.data[COORDINATOR_DATA_BASIC_INFO][DISCHARGING_ENABLED]
  self.client.chgDsgEnable(True, discharge_enabled)
  attempts = 5
  while (not self.client.readBasicInfo()[CHARGING_ENABLED] and attempts > 0):
      attempts -= 1
  await self.coordinator.async_refresh()
  \<close>
  The other three methods differ in the flag they keep, the flag they set and the
  sense of the loop test. Each takes the coordinator and the calls made so far and
  returns the outcome, the coordinator after the refresh and the calls made.
\<close>

definition JBDChargeToggle_async_turn_on ::
    "device \<Rightarrow> coordinator \<Rightarrow> call list \<Rightarrow> (exn + unit) \<times> coordinator \<times> call list" where
  "JBDChargeToggle_async_turn_on dev c h =
     (case getitem (basic_info (data c)) DISCHARGING_ENABLED of
        Inl e \<Rightarrow> (Inl e, c, h)
      | Inr discharge_enabled \<Rightarrow>
          (case io_bind (client_chgDsgEnable dev (PyBool True) discharge_enabled)
                  (\<lambda>u. while_not_settled dev CHARGING_ENABLED True 5) h of
             (Inl e, h') \<Rightarrow> (Inl e, c, h')
           | (Inr u, h') \<Rightarrow> (case async_refresh dev c h' of (c', h'') \<Rightarrow> (Inr (), c', h''))))"

definition JBDChargeToggle_async_turn_off ::
    "device \<Rightarrow> coordinator \<Rightarrow> call list \<Rightarrow> (exn + unit) \<times> coordinator \<times> call list" where
  "JBDChargeToggle_async_turn_off dev c h =
     (case getitem (basic_info (data c)) DISCHARGING_ENABLED of
        Inl e \<Rightarrow> (Inl e, c, h)
      | Inr discharge_enabled \<Rightarrow>
          (case io_bind (client_chgDsgEnable dev (PyBool False) discharge_enabled)
                  (\<lambda>u. while_not_settled dev CHARGING_ENABLED False 5) h of
             (Inl e, h') \<Rightarrow> (Inl e, c, h')
           | (Inr u, h') \<Rightarrow> (case async_refresh dev c h' of (c', h'') \<Rightarrow> (Inr (), c', h''))))"

definition JBDDischargeToggle_async_turn_on ::
    "device \<Rightarrow> coordinator \<Rightarrow> call list \<Rightarrow> (exn + unit) \<times> coordinator \<times> call list" where
  "JBDDischargeToggle_async_turn_on dev c h =
     (case getitem (basic_info (data c)) CHARGING_ENABLED of
        Inl e \<Rightarrow> (Inl e, c, h)
      | Inr charge_enabled \<Rightarrow>
          (case io_bind (client_chgDsgEnable dev charge_enabled (PyBool True))
                  (\<lambda>u. while_not_settled dev DISCHARGING_ENABLED True 5) h of
             (Inl e, h') \<Rightarrow> (Inl e, c, h')
           | (Inr u, h') \<Rightarrow> (case async_refresh dev c h' of (c', h'') \<Rightarrow> (Inr (), c', h''))))"

definition JBDDischargeToggle_async_turn_off ::
    "device \<Rightarrow> coordinator \<Rightarrow> call list \<Rightarrow> (exn + unit) \<times> coordinator \<times> call list" where
  "JBDDischargeToggle_async_turn_off dev c h =
     (case getitem (basic_info (data c)) CHARGING_ENABLED of
        Inl e \<Rightarrow> (Inl e, c, h)
      | Inr charge_enabled \<Rightarrow>
          (case io_bind (client_chgDsgEnable dev charge_enabled (PyBool False))
                  (\<lambda>u. while_not_settled dev DISCHARGING_ENABLED False 5) h of
             (Inl e, h') \<Rightarrow> (Inl e, c, h')
           | (Inr u, h') \<Rightarrow> (case async_refresh dev c h' of (c', h'') \<Rightarrow> (Inr (), c', h''))))"

text \<open>The calls a run added to the calls made before it, and the combined writes among them.\<close>

definition new_calls :: "call list \<Rightarrow> call list \<Rightarrow> call list" where
  "new_calls before after = drop (length before) after"

fun is_write :: "call \<Rightarrow> bool" where
  "is_write (ChgDsgEnable chg dsg) = True"
| "is_write other = False"

section \<open>The provisioning flow (config_flow.py)\<close>

definition ATTR_SERIAL_NUMBER :: string where "ATTR_SERIAL_NUMBER = ''serial_number''"
definition CONF_PORT :: string where "CONF_PORT = ''port''"
definition DEFAULT_INTEGRATION_TITLE :: string where "DEFAULT_INTEGRATION_TITLE = ''BMS Tools''"

text \<open>
  A configuration entry of the host platform; the integration reads its \<open>data\<close>
  mapping (\<open>existing_entry.data\<close>).
\<close>

record config_entry =
  entry_data :: pydict

text \<open>
  What a flow step returns: \<open>async_abort(reason)\<close>, \<open>async_show_form(step_id, errors)\<close>
  or \<open>async_create_entry(title, data)\<close>. The errors of a form are the items of the
  \<open>errors\<close> dictionary.
\<close>

datatype flow_result =
    Abort string
  | ShowForm string "(string \<times> string) list"
  | CreateEntry string pydict

text \<open>
  \<open>get_next_available_serial_number\<close> subscripts the entry object itself,
  \<open>existing_entry[ATTR_SERIAL_NUMBER]\<close>, where every other place of the flow writes
  \<open>existing_entry.data[...]\<close>. The class of the entry belongs to the host platform, so
  what subscripting an entry does is a parameter \<open>subscript\<close> of the model. The host's
  \<open>ConfigEntry\<close> defines no item access: subscripting it raises \<open>TypeError\<close>
  (\<open>ConfigEntry_getitem\<close>). \<open>entry_data_getitem\<close> is the reading through \<open>.data\<close> that
  the other places use.
\<close>

definition ConfigEntry_getitem :: "config_entry \<Rightarrow> string \<Rightarrow> exn + pyval" where
  "ConfigEntry_getitem existing_entry k = Inl TypeError"

definition entry_data_getitem :: "config_entry \<Rightarrow> string \<Rightarrow> exn + pyval" where
  "entry_data_getitem existing_entry k = getitem (entry_data existing_entry) k"

text \<open>
  \<^verbatim>\<open>
  def get_next_available_serial_number(self):
      taken_serial_nums = []
      for existing_entry in self.hass.config_entries.async_entries(DOMAIN):
          taken_serial_nums.append(existing_entry[ATTR_SERIAL_NUMBER])
      for serial_number in range(1, 65536):
          if serial_number not in taken_serial_nums:
              return serial_number
      return None
  \<close>
\<close>

fun taken_serial_nums ::
    "(config_entry \<Rightarrow> string \<Rightarrow> exn + pyval) \<Rightarrow> config_entry list \<Rightarrow> exn + pyval list" where
  "taken_serial_nums subscript [] = Inr []"
| "taken_serial_nums subscript (existing_entry # entries) =
     and_then (subscript existing_entry ATTR_SERIAL_NUMBER) (\<lambda>v.
     and_then (taken_serial_nums subscript entries) (\<lambda>vs. Inr (v # vs)))"

text \<open>\<open>x in xs\<close> on a list compares with \<open>==\<close>.\<close>

fun py_in :: "pyval \<Rightarrow> pyval list \<Rightarrow> bool" where
  "py_in x [] = False"
| "py_in x (y # ys) = (py_eq x y \<or> py_in x ys)"

text \<open>The second loop, from \<open>serial_number\<close> on: \<open>range(serial_number, 65536)\<close>.\<close>

function first_not_taken :: "pyval list \<Rightarrow> int \<Rightarrow> int option" where
  "first_not_taken taken serial_number =
     (if serial_number < 65536
      then (if \<not> py_in (PyInt serial_number) taken then Some serial_number
            else first_not_taken taken (serial_number + 1))
      else None)"
  by pat_completeness auto
termination
  by (relation "measure (\<lambda>(taken, serial_number). nat (65536 - serial_number))") auto

declare first_not_taken.simps [simp del]

definition get_next_available_serial_number ::
    "(config_entry \<Rightarrow> string \<Rightarrow> exn + pyval) \<Rightarrow> config_entry list \<Rightarrow> exn + int option" where
  "get_next_available_serial_number subscript entries =
     and_then (taken_serial_nums subscript entries) (\<lambda>taken. Inr (first_not_taken taken 1))"

text \<open>
  \<^verbatim>\<open>
  def write_serial_number(self, serial_number):
      try:
          ser = Serial()
          ser.port = self.init_info[CONF_PORT]
          client = JBD(ser)
          serial_num_reg = client.eeprom_reg_by_regname.get("serial_num", None)
          serial_num_reg.set("serial_num", serial_number)
          client.writeReg(serial_num_reg)
      except BMSError:
          _LOGGER.error(...)
  \<close>
  The register table of the client library holds \<open>serial_num\<close>.
\<close>

definition io_lift :: "exn + 'a \<Rightarrow> 'a io" where
  "io_lift r h = (r, h)"

definition write_serial_number :: "device \<Rightarrow> pydict \<Rightarrow> int \<Rightarrow> unit io" where
  "write_serial_number dev init_info serial_number =
     except_BMSError
       (io_bind (io_lift (getitem init_info CONF_PORT)) (\<lambda>port.
          client_writeReg dev ''serial_num'' serial_number))
       (io_return ())"

text \<open>
  The duplicate check of the step:
  \<^verbatim>\<open>
  for existing_entry in self.hass.config_entries.async_entries(DOMAIN):
      if existing_entry.data[ATTR_SERIAL_NUMBER] == self.init_info[ATTR_SERIAL_NUMBER]:
          return self.async_abort(reason="device_already_configured")
  \<close>
\<close>

fun serial_already_configured :: "config_entry list \<Rightarrow> pyval \<Rightarrow> exn + bool" where
  "serial_already_configured [] serial = Inr False"
| "serial_already_configured (existing_entry # entries) serial =
     and_then (getitem (entry_data existing_entry) ATTR_SERIAL_NUMBER) (\<lambda>v.
       if py_eq v serial then Inr True else serial_already_configured entries serial)"

text \<open>
  \<^verbatim>\<open>
  async def async_step_serial_number(self, user_input=None):
      errors = {}
      if user_input is not None:
          if user_input["consent"]:
              new_serial_num = self.get_next_available_serial_number()
              if new_serial_num:
                  self.write_serial_number(new_serial_num)
                  self.init_info[ATTR_SERIAL_NUMBER] = new_serial_num
              else:
                  self.async_abort(reason="serial_numbers_exhausted")
          else:
              errors["base"] = "must_give_consent"
      if self.init_info[ATTR_SERIAL_NUMBER] == 0:
          return self.async_show_form(step_id="serial_number", ..., errors=errors)
      else:
          (the duplicate check)
      return self.async_create_entry(title=DEFAULT_INTEGRATION_TITLE, data=self.init_info)
  \<close>
  The step is reached after \<open>async_step_init\<close> has stored the probed device info and the
  chosen port in \<open>self.init_info\<close>. The first part of the step handles the answer of
  the user and yields the form errors and the updated \<open>init_info\<close>. In its \<open>else\<close>
  branch the result of \<open>async_abort\<close> is built and dropped (there is no \<open>return\<close>), so
  the step goes on.
\<close>

definition handle_consent ::
    "(config_entry \<Rightarrow> string \<Rightarrow> exn + pyval) \<Rightarrow> device \<Rightarrow> config_entry list \<Rightarrow> pydict
      \<Rightarrow> pydict option \<Rightarrow> ((string \<times> string) list \<times> pydict) io" where
  "handle_consent subscript dev entries init_info user_input h =
     (case user_input of
        None \<Rightarrow> (Inr ([], init_info), h)
      | Some ui \<Rightarrow>
          (case getitem ui ''consent'' of
             Inl e \<Rightarrow> (Inl e, h)
           | Inr consent \<Rightarrow>
               if truthy consent then
                 (case get_next_available_serial_number subscript entries of
                    Inl e \<Rightarrow> (Inl e, h)
                  | Inr None \<Rightarrow> \<comment> \<open>\<open>async_abort(...)\<close> without \<open>return\<close>\<close>
                      (Inr ([], init_info), h)
                  | Inr (Some new_serial_num) \<Rightarrow>
                      if new_serial_num \<noteq> 0 then
                        (case write_serial_number dev init_info new_serial_num h of
                           (Inl e, h') \<Rightarrow> (Inl e, h')
                         | (Inr u, h') \<Rightarrow>
                             (Inr ([], init_info(ATTR_SERIAL_NUMBER \<mapsto> PyInt new_serial_num)), h'))
                      else \<comment> \<open>a falsy number takes the same \<open>else\<close> branch\<close>
                        (Inr ([], init_info), h))
               else (Inr ([(''base'', ''must_give_consent'')], init_info), h)))"

definition async_step_serial_number ::
    "(config_entry \<Rightarrow> string \<Rightarrow> exn + pyval) \<Rightarrow> device \<Rightarrow> config_entry list \<Rightarrow> pydict
      \<Rightarrow> pydict option \<Rightarrow> call list \<Rightarrow> (exn + flow_result) \<times> pydict \<times> call list" where
  "async_step_serial_number subscript dev entries init_info user_input h =
     (case handle_consent subscript dev entries init_info user_input h of
        (Inl e, h') \<Rightarrow> (Inl e, init_info, h')
      | (Inr (errors, init_info'), h') \<Rightarrow>
          (case getitem init_info' ATTR_SERIAL_NUMBER of
             Inl e \<Rightarrow> (Inl e, init_info', h')
           | Inr serial \<Rightarrow>
               if py_eq serial (PyInt 0)
               then (Inr (ShowForm ''serial_number'' errors), init_info', h')
               else (case serial_already_configured entries serial of
                       Inl e \<Rightarrow> (Inl e, init_info', h')
                     | Inr True \<Rightarrow> (Inr (Abort ''device_already_configured''), init_info', h')
                     | Inr False \<Rightarrow>
                         (Inr (CreateEntry DEFAULT_INTEGRATION_TITLE init_info'),
                          init_info', h'))))"

text \<open>
  Inputs for examples: the info stored for a device that reports serial number 0, and
  the entries of an installation in which every serial number from 1 to 65535 is taken.
\<close>

definition unnumbered_device_info :: pydict where
  "unnumbered_device_info =
     [''serial_number'' \<mapsto> PyInt 0, ''port'' \<mapsto> PyStr ''/dev/ttyUSB0'']"

definition entry_with_serial :: "int \<Rightarrow> config_entry" where
  "entry_with_serial n = \<lparr>entry_data = [''serial_number'' \<mapsto> PyInt n]\<rparr>"

definition all_serials_taken :: "config_entry list" where
  "all_serials_taken = map entry_with_serial [1..65535]"

section \<open>Properties of the sensor projections\<close>

lemmas projection_defs = and_then_def getitem_def py_truediv_def shown_number_def


text \<open>
  \<open>py_round\<close> is a rounding: its result is a multiple of \<open>10 ** -ndigits\<close> and lies
  within half such a unit of its argument.
\<close>

lemma round_half_even_close: "\<bar>of_int (round_half_even x) - x\<bar> \<le> 1 / 2"
proof -
  have lo: "of_int \<lfloor>x\<rfloor> \<le> x" and hi: "x < of_int \<lfloor>x\<rfloor> + 1"
    by linarith+
  consider "x - of_int \<lfloor>x\<rfloor> < 1 / 2" | "1 / 2 < x - of_int \<lfloor>x\<rfloor>"
    | "x - of_int \<lfloor>x\<rfloor> = 1 / 2"
    by linarith
  then show ?thesis
  proof cases
    case 1
    then have "round_half_even x = \<lfloor>x\<rfloor>" by (simp add: round_half_even_def Let_def)
    with 1 lo show ?thesis by simp
  next
    case 2
    then have "round_half_even x = \<lfloor>x\<rfloor> + 1" by (simp add: round_half_even_def Let_def)
    with 2 hi show ?thesis by simp
  next
    case 3
    then have "round_half_even x = \<lfloor>x\<rfloor> \<or> round_half_even x = \<lfloor>x\<rfloor> + 1"
      by (simp add: round_half_even_def Let_def)
    with 3 show ?thesis by auto
  qed
qed

lemma py_round_is_rounding:
  "(\<exists>k::int. py_round x ndigits = of_int k / 10 ^ ndigits)
   \<and> \<bar>py_round x ndigits - x\<bar> \<le> 1 / (2 * 10 ^ ndigits)"
proof -
  define p :: rat where "p = 10 ^ ndigits"
  define k where "k = round_half_even (x * p)"
  have p: "0 < p" by (simp add: p_def)
  have "\<bar>of_int k - x * p\<bar> \<le> 1 / 2"
    unfolding k_def by (rule round_half_even_close)
  then have "\<bar>of_int k - x * p\<bar> / p \<le> (1 / 2) / p"
    using p by (intro divide_right_mono) simp_all
  moreover have "\<bar>of_int k - x * p\<bar> / p = \<bar>of_int k / p - x\<bar>"
  proof -
    have "of_int k / p - x = (of_int k - x * p) / p"
      using p by (simp add: diff_divide_distrib)
    then show ?thesis using p by simp
  qed
  ultimately have "\<bar>of_int k / p - x\<bar> \<le> 1 / (2 * p)"
    by simp
  moreover have "py_round x ndigits = of_int k / p"
    by (simp add: py_round_def k_def p_def)
  ultimately show ?thesis
    by (auto simp: p_def)
qed



text \<open>
  Claim C2, as stated: on every snapshot exactly one of discharge power and charge
  power is non-zero. It fails when no current flows: on
  \<open>{pack_mv: 25000, pack_ma: 0}\<close> the power is zero and both projections show \<open>0\<close>.
\<close>

theorem exactly_one_nonzero_counterexample:
  "shown_number (native_value JBDCalculatedDischargePowerSensor
       \<lparr>basic_info = [''pack_mv'' \<mapsto> PyInt 25000, ''pack_ma'' \<mapsto> PyInt 0],
        cell_info = Map.empty\<rparr>) = Some 0
   \<and> shown_number (native_value JBDCalculatedChargePowerSensor
       \<lparr>basic_info = [''pack_mv'' \<mapsto> PyInt 25000, ''pack_ma'' \<mapsto> PyInt 0],
        cell_info = Map.empty\<rparr>) = Some 0"
  by (simp add: projection_defs BATTERY_VOLTAGE_def BATTERY_CURRENT_def)

text \<open>
  Claim C2, amended: on every snapshot on which the power projection shows a number
  \<open>p\<close>, the discharge-power and charge-power projections show numbers \<open>d\<close> and \<open>c\<close>
  with \<open>d * c = 0\<close> and \<open>c - d = p\<close>; at most one of them is non-zero, and both are
  zero exactly when \<open>p = 0\<close>.
\<close>

theorem sign_partition:
  assumes "shown_number (native_value JBDCalculatedPowerSensor S) = Some p"
  shows "\<exists>d c. shown_number (native_value JBDCalculatedDischargePowerSensor S) = Some d
           \<and> shown_number (native_value JBDCalculatedChargePowerSensor S) = Some c
           \<and> d * c = 0 \<and> c - d = p
           \<and> \<not> (d \<noteq> 0 \<and> c \<noteq> 0)
           \<and> ((d = 0 \<and> c = 0) = (p = 0))"
  using assms
  by (auto simp: projection_defs Let_def split: option.splits if_splits)

theorem sign_partition_witness:
  "shown_number (native_value JBDCalculatedPowerSensor
       \<lparr>basic_info = [''pack_mv'' \<mapsto> PyInt 25000, ''pack_ma'' \<mapsto> PyInt (- 2000)],
        cell_info = Map.empty\<rparr>) = Some (- 50)
   \<and> (\<exists>d c. shown_number (native_value JBDCalculatedDischargePowerSensor
         \<lparr>basic_info = [''pack_mv'' \<mapsto> PyInt 25000, ''pack_ma'' \<mapsto> PyInt (- 2000)],
          cell_info = Map.empty\<rparr>) = Some d
      \<and> shown_number (native_value JBDCalculatedChargePowerSensor
         \<lparr>basic_info = [''pack_mv'' \<mapsto> PyInt 25000, ''pack_ma'' \<mapsto> PyInt (- 2000)],
          cell_info = Map.empty\<rparr>) = Some c
      \<and> d * c = 0 \<and> c - d = - 50
      \<and> \<not> (d \<noteq> 0 \<and> c \<noteq> 0)
      \<and> ((d = 0 \<and> c = 0) = ((- 50 :: rat) = 0)))"
proof -
  have p: "shown_number (native_value JBDCalculatedPowerSensor
       \<lparr>basic_info = [''pack_mv'' \<mapsto> PyInt 25000, ''pack_ma'' \<mapsto> PyInt (- 2000)],
        cell_info = Map.empty\<rparr>) = Some (- 50)"
    by (simp add: projection_defs BATTERY_VOLTAGE_def BATTERY_CURRENT_def)
  from sign_partition [OF p] p show ?thesis
    by blast
qed




section \<open>Properties of the poll cycle\<close>

lemmas io_defs = io_return_def io_raise_def io_bind_def try_finally_def except_BMSError_def
  raised_def client_open_def client_close_def client_readBasicInfo_def
  client_readCellInfo_def client_chgDsgEnable_def client_writeReg_def

lemma sync_update_data_calls:
  "\<exists>cs. snd (sync_update_data dev h) = h @ Open # cs @ [Close]
        \<and> set cs \<subseteq> {ReadBasicInfo, ReadCellInfo}"
  by (auto simp: sync_update_data_def io_defs split: option.splits sum.splits prod.splits)

lemma async_update_data_calls:
  "snd (async_update_data dev h) = snd (sync_update_data dev h)"
  by (auto simp: async_update_data_def io_defs split: sum.splits prod.splits)

lemma async_refresh_calls:
  "snd (async_refresh dev c h) = snd (sync_update_data dev h)"
  by (auto simp: async_refresh_def async_update_data_def io_defs split: sum.splits prod.splits)

text \<open>
  Claim C6. In a poll cycle whose link opens and in which the basic-info read or the
  cell-info read raises the communication error \<open>BMSError\<close>, the update method raises
  \<open>UpdateFailed\<close>: it returns no snapshot, partial or whole, and after the refresh the
  coordinator still holds the snapshot published before. A cycle in which both reads
  succeed returns the snapshot made of exactly the two mappings read, and the refresh
  publishes it.
\<close>

theorem failed_cycle_keeps_snapshot:
  assumes "open_reply dev h = None"
  shows "(readBasicInfo_reply dev (h @ [Open]) = Inl BMSError
            \<or> (\<exists>basic. readBasicInfo_reply dev (h @ [Open]) = Inr basic)
                \<and> readCellInfo_reply dev (h @ [Open, ReadBasicInfo]) = Inl BMSError
          \<longrightarrow> fst (async_update_data dev h) = Inl UpdateFailed
              \<and> data (fst (async_refresh dev c h)) = data c
              \<and> last_update_success (fst (async_refresh dev c h)) = False)
       \<and> (readBasicInfo_reply dev (h @ [Open]) = Inr basic
            \<and> readCellInfo_reply dev (h @ [Open, ReadBasicInfo]) = Inr cell
          \<longrightarrow> fst (async_update_data dev h) = Inr \<lparr>basic_info = basic, cell_info = cell\<rparr>
              \<and> data (fst (async_refresh dev c h)) = \<lparr>basic_info = basic, cell_info = cell\<rparr>
              \<and> last_update_success (fst (async_refresh dev c h)) = True)"
  using assms
  by (auto simp: async_refresh_def async_update_data_def sync_update_data_def io_defs
      split: option.splits sum.splits prod.splits)

text \<open>
  The witness: a device whose cell-info read raises, and one that answers both reads,
  each refreshed over a coordinator that holds an older snapshot.
\<close>

theorem failed_cycle_keeps_snapshot_witness:
  "fst (async_update_data
         ((steady_device [''cap_pct'' \<mapsto> PyInt 80])\<lparr>readCellInfo_reply := (\<lambda>h. Inl BMSError)\<rparr>) [])
     = Inl UpdateFailed
   \<and> data (fst (async_refresh
         ((steady_device [''cap_pct'' \<mapsto> PyInt 80])\<lparr>readCellInfo_reply := (\<lambda>h. Inl BMSError)\<rparr>)
         \<lparr>data = \<lparr>basic_info = [''cap_pct'' \<mapsto> PyInt 79], cell_info = Map.empty\<rparr>,
          last_update_success = True\<rparr> []))
       = \<lparr>basic_info = [''cap_pct'' \<mapsto> PyInt 79], cell_info = Map.empty\<rparr>
   \<and> data (fst (async_refresh
         (steady_device [''cap_pct'' \<mapsto> PyInt 80])
         \<lparr>data = \<lparr>basic_info = [''cap_pct'' \<mapsto> PyInt 79], cell_info = Map.empty\<rparr>,
          last_update_success = True\<rparr> []))
       = \<lparr>basic_info = [''cap_pct'' \<mapsto> PyInt 80],
          cell_info = [''cell0_mv'' \<mapsto> PyInt 3300]\<rparr>"
  using
    failed_cycle_keeps_snapshot [where
      dev = "(steady_device [''cap_pct'' \<mapsto> PyInt 80])\<lparr>readCellInfo_reply := (\<lambda>h. Inl BMSError)\<rparr>"
      and h = "[]"
      and c = "\<lparr>data = \<lparr>basic_info = [''cap_pct'' \<mapsto> PyInt 79], cell_info = Map.empty\<rparr>,
          last_update_success = True\<rparr>"]
    failed_cycle_keeps_snapshot [where
      dev = "steady_device [''cap_pct'' \<mapsto> PyInt 80]"
      and h = "[]"
      and basic = "[''cap_pct'' \<mapsto> PyInt 80]"
      and cell = "[''cell0_mv'' \<mapsto> PyInt 3300]"
      and c = "\<lparr>data = \<lparr>basic_info = [''cap_pct'' \<mapsto> PyInt 79], cell_info = Map.empty\<rparr>,
          last_update_success = True\<rparr>"]
  by (simp add: steady_device_def)

text \<open>
  Claim C7. Whatever the device answers, and so on every exit path of the cycle (the
  link failing to open, either read raising, both reads succeeding), the calls of a
  poll cycle are \<open>open()\<close>, then reads only, then \<open>close()\<close> as the last call: the link
  is not open when the cycle exits. The update method and the coordinator's refresh
  make exactly these calls.
\<close>

theorem cycle_closes_link:
  "link_open (snd (sync_update_data dev h)) = False
   \<and> (\<exists>cs. snd (sync_update_data dev h) = h @ Open # cs @ [Close]
          \<and> set cs \<subseteq> {ReadBasicInfo, ReadCellInfo})
   \<and> snd (async_update_data dev h) = snd (sync_update_data dev h)
   \<and> snd (async_refresh dev c h) = snd (sync_update_data dev h)"
proof -
  obtain cs where cs: "snd (sync_update_data dev h) = h @ Open # cs @ [Close]"
    "set cs \<subseteq> {ReadBasicInfo, ReadCellInfo}"
    using sync_update_data_calls by blast
  have "link_open (snd (sync_update_data dev h)) = False"
    unfolding cs by (simp add: link_open_def)
  with cs show ?thesis
    by (auto simp: async_update_data_calls async_refresh_calls)
qed

text \<open>
  The exit path of a failed read: the basic-info read raises, the cycle ends with the
  exception after \<open>open()\<close>, the read and \<open>close()\<close>.
\<close>

theorem cycle_closes_link_witness:
  "fst (sync_update_data
         ((steady_device Map.empty)\<lparr>readBasicInfo_reply := (\<lambda>h. Inl BMSError)\<rparr>) [])
     = Inl BMSError
   \<and> snd (sync_update_data
         ((steady_device Map.empty)\<lparr>readBasicInfo_reply := (\<lambda>h. Inl BMSError)\<rparr>) [])
     = [Open, ReadBasicInfo, Close]
   \<and> link_open (snd (sync_update_data
         ((steady_device Map.empty)\<lparr>readBasicInfo_reply := (\<lambda>h. Inl BMSError)\<rparr>) []))
     = False"
  using cycle_closes_link [where h = "[]"
      and dev = "(steady_device Map.empty)\<lparr>readBasicInfo_reply := (\<lambda>h. Inl BMSError)\<rparr>"]
  by (simp add: sync_update_data_def io_defs steady_device_def)

section \<open>Properties of the toggles\<close>

lemma while_not_settled_calls:
  "\<exists>k. 1 \<le> k \<and> int k \<le> max 0 attempts + 1
       \<and> snd (while_not_settled dev key w attempts h) = h @ replicate k ReadBasicInfo"
proof (induction dev key w attempts h rule: while_not_settled.induct)
  case (1 dev key w attempts h)
  show ?case
  proof (cases "\<exists>info flag. readBasicInfo_reply dev h = Inr info \<and> getitem info key = Inr flag
                  \<and> (if w then \<not> truthy flag else truthy flag) \<and> 0 < attempts")
    case True
    then obtain info flag where c: "readBasicInfo_reply dev h = Inr info"
      "getitem info key = Inr flag" "(if w then \<not> truthy flag else truthy flag) \<and> 0 < attempts"
      by blast
    have e: "(Inr info, h @ [ReadBasicInfo]) = client_readBasicInfo dev h"
      using c(1) by (simp add: client_readBasicInfo_def)
    from "1.IH" [OF e refl c(2) c(3)]
    obtain k where k: "1 \<le> k" "int k \<le> max 0 (attempts - 1) + 1"
      "snd (while_not_settled dev key w (attempts - 1) (h @ [ReadBasicInfo]))
         = (h @ [ReadBasicInfo]) @ replicate k ReadBasicInfo"
      by blast
    have "snd (while_not_settled dev key w attempts h) = h @ replicate (Suc k) ReadBasicInfo"
      using c k(3) by (subst while_not_settled.simps) (simp add: client_readBasicInfo_def)
    moreover have "int (Suc k) \<le> max 0 attempts + 1" using k(2) c(3) by auto
    ultimately show ?thesis by (intro exI [of _ "Suc k"]) simp
  next
    case False
    then have "snd (while_not_settled dev key w attempts h) = h @ replicate 1 ReadBasicInfo"
      by (subst while_not_settled.simps)
         (auto simp: client_readBasicInfo_def split: sum.splits)
    then show ?thesis by (intro exI [of _ 1]) auto
  qed
qed

lemma toggle_body_calls:
  "\<exists>rest. snd (snd (case io_bind (client_chgDsgEnable dev chg dsg)
                            (\<lambda>u. while_not_settled dev key w n) h of
                       (Inl e, h') \<Rightarrow> (Inl e, c, h')
                     | (Inr u, h') \<Rightarrow>
                         (case async_refresh dev c h' of (c', h'') \<Rightarrow> (Inr (), c', h''))))
            = h @ ChgDsgEnable chg dsg # rest
         \<and> filter is_write rest = []"
proof -
  let ?h1 = "h @ [ChgDsgEnable chg dsg]"
  obtain k where k: "snd (while_not_settled dev key w n ?h1) = ?h1 @ replicate k ReadBasicInfo"
    using while_not_settled_calls by blast
  obtain cs where cs:
    "snd (sync_update_data dev (?h1 @ replicate k ReadBasicInfo))
       = (?h1 @ replicate k ReadBasicInfo) @ Open # cs @ [Close]"
    "set cs \<subseteq> {ReadBasicInfo, ReadCellInfo}"
    using sync_update_data_calls by blast
  have nw: "filter is_write cs = []"
    using cs(2) by (auto simp: filter_empty_conv)
  show ?thesis
  proof (cases "chgDsgEnable_reply dev h chg dsg")
    case (Some e)
    then show ?thesis
      by (simp add: io_bind_def client_chgDsgEnable_def raised_def)
  next
    case None
    show ?thesis
    proof (cases "while_not_settled dev key w n ?h1")
      case (Pair r h')
      with k have h': "h' = ?h1 @ replicate k ReadBasicInfo" by simp
      show ?thesis
      proof (cases r)
        case (Inl e)
        with None Pair h' show ?thesis
          by (simp add: io_bind_def client_chgDsgEnable_def raised_def)
      next
        case (Inr u)
        obtain c' h'' where r: "async_refresh dev c h' = (c', h'')"
          by (cases "async_refresh dev c h'")
        then have "h'' = snd (sync_update_data dev h')"
          using async_refresh_calls [of dev c h'] by simp
        with cs(1) h' have "h'' = h @ ChgDsgEnable chg dsg # (replicate k ReadBasicInfo @ Open # cs @ [Close])"
          by simp
        with None Pair Inr r nw show ?thesis
          by (simp add: io_bind_def client_chgDsgEnable_def raised_def)
      qed
    qed
  qed
qed

text \<open>
  Claim C4. Each of the four toggle methods, run on a coordinator whose snapshot holds
  the sibling flag, sends exactly one combined write to the client; the write is the
  first call the method makes (no read of the device precedes it), it carries the
  desired value for the flag being set and, for the sibling flag, the value found in
  the coordinator's snapshot. This holds whatever the device answers.
\<close>

theorem write_keeps_sibling_flag:
  "(basic_info (data c) DISCHARGING_ENABLED = Some kept \<longrightarrow>
      filter is_write (new_calls h (snd (snd (JBDChargeToggle_async_turn_on dev c h))))
        = [ChgDsgEnable (PyBool True) kept]
    \<and> take 1 (new_calls h (snd (snd (JBDChargeToggle_async_turn_on dev c h))))
        = [ChgDsgEnable (PyBool True) kept]
    \<and> filter is_write (new_calls h (snd (snd (JBDChargeToggle_async_turn_off dev c h))))
        = [ChgDsgEnable (PyBool False) kept]
    \<and> take 1 (new_calls h (snd (snd (JBDChargeToggle_async_turn_off dev c h))))
        = [ChgDsgEnable (PyBool False) kept])
   \<and> (basic_info (data c) CHARGING_ENABLED = Some kept \<longrightarrow>
      filter is_write (new_calls h (snd (snd (JBDDischargeToggle_async_turn_on dev c h))))
        = [ChgDsgEnable kept (PyBool True)]
    \<and> take 1 (new_calls h (snd (snd (JBDDischargeToggle_async_turn_on dev c h))))
        = [ChgDsgEnable kept (PyBool True)]
    \<and> filter is_write (new_calls h (snd (snd (JBDDischargeToggle_async_turn_off dev c h))))
        = [ChgDsgEnable kept (PyBool False)]
    \<and> take 1 (new_calls h (snd (snd (JBDDischargeToggle_async_turn_off dev c h))))
        = [ChgDsgEnable kept (PyBool False)])"
proof -
  have shape: "filter is_write (new_calls h hs) = [ChgDsgEnable chg dsg]
             \<and> take 1 (new_calls h hs) = [ChgDsgEnable chg dsg]"
    if "\<exists>rest. hs = h @ ChgDsgEnable chg dsg # rest \<and> filter is_write rest = []"
    for hs chg dsg
    using that by (auto simp: new_calls_def)
  show ?thesis
  proof (intro conjI impI)
    assume k: "basic_info (data c) DISCHARGING_ENABLED = Some kept"
    have on: "\<exists>rest. snd (snd (JBDChargeToggle_async_turn_on dev c h))
                 = h @ ChgDsgEnable (PyBool True) kept # rest \<and> filter is_write rest = []"
      using k toggle_body_calls [where dev = dev and chg = "PyBool True" and dsg = kept
          and key = CHARGING_ENABLED and w = True and n = 5 and h = h and c = c]
      by (simp add: JBDChargeToggle_async_turn_on_def getitem_def)
    have off: "\<exists>rest. snd (snd (JBDChargeToggle_async_turn_off dev c h))
                 = h @ ChgDsgEnable (PyBool False) kept # rest \<and> filter is_write rest = []"
      using k toggle_body_calls [where dev = dev and chg = "PyBool False" and dsg = kept
          and key = CHARGING_ENABLED and w = False and n = 5 and h = h and c = c]
      by (simp add: JBDChargeToggle_async_turn_off_def getitem_def)
    from shape [OF on]
    show "filter is_write (new_calls h (snd (snd (JBDChargeToggle_async_turn_on dev c h))))
        = [ChgDsgEnable (PyBool True) kept]"
      and "take 1 (new_calls h (snd (snd (JBDChargeToggle_async_turn_on dev c h))))
        = [ChgDsgEnable (PyBool True) kept]"
      by blast+
    from shape [OF off]
    show "filter is_write (new_calls h (snd (snd (JBDChargeToggle_async_turn_off dev c h))))
        = [ChgDsgEnable (PyBool False) kept]"
      and "take 1 (new_calls h (snd (snd (JBDChargeToggle_async_turn_off dev c h))))
        = [ChgDsgEnable (PyBool False) kept]"
      by blast+
  next
    assume k: "basic_info (data c) CHARGING_ENABLED = Some kept"
    have on: "\<exists>rest. snd (snd (JBDDischargeToggle_async_turn_on dev c h))
                 = h @ ChgDsgEnable kept (PyBool True) # rest \<and> filter is_write rest = []"
      using k toggle_body_calls [where dev = dev and chg = kept and dsg = "PyBool True"
          and key = DISCHARGING_ENABLED and w = True and n = 5 and h = h and c = c]
      by (simp add: JBDDischargeToggle_async_turn_on_def getitem_def)
    have off: "\<exists>rest. snd (snd (JBDDischargeToggle_async_turn_off dev c h))
                 = h @ ChgDsgEnable kept (PyBool False) # rest \<and> filter is_write rest = []"
      using k toggle_body_calls [where dev = dev and chg = kept and dsg = "PyBool False"
          and key = DISCHARGING_ENABLED and w = False and n = 5 and h = h and c = c]
      by (simp add: JBDDischargeToggle_async_turn_off_def getitem_def)
    from shape [OF on]
    show "filter is_write (new_calls h (snd (snd (JBDDischargeToggle_async_turn_on dev c h))))
        = [ChgDsgEnable kept (PyBool True)]"
      and "take 1 (new_calls h (snd (snd (JBDDischargeToggle_async_turn_on dev c h))))
        = [ChgDsgEnable kept (PyBool True)]"
      by blast+
    from shape [OF off]
    show "filter is_write (new_calls h (snd (snd (JBDDischargeToggle_async_turn_off dev c h))))
        = [ChgDsgEnable kept (PyBool False)]"
      and "take 1 (new_calls h (snd (snd (JBDDischargeToggle_async_turn_off dev c h))))
        = [ChgDsgEnable kept (PyBool False)]"
      by blast+
  qed
qed

text \<open>
  The witness: the snapshot says both flags are off while the device reports both on;
  turning charge on writes \<open>(True, False)\<close> and turning discharge off writes
  \<open>(False, False)\<close>: the sibling value is the snapshot's.
\<close>

theorem write_keeps_sibling_flag_witness:
  "filter is_write (new_calls [] (snd (snd (JBDChargeToggle_async_turn_on
       (steady_device [''chg_fet_en'' \<mapsto> PyBool True, ''dsg_fet_en'' \<mapsto> PyBool True])
       \<lparr>data = \<lparr>basic_info = [''chg_fet_en'' \<mapsto> PyBool False, ''dsg_fet_en'' \<mapsto> PyBool False],
                cell_info = Map.empty\<rparr>,
        last_update_success = True\<rparr> []))))
     = [ChgDsgEnable (PyBool True) (PyBool False)]
   \<and> filter is_write (new_calls [] (snd (snd (JBDDischargeToggle_async_turn_off
       (steady_device [''chg_fet_en'' \<mapsto> PyBool True, ''dsg_fet_en'' \<mapsto> PyBool True])
       \<lparr>data = \<lparr>basic_info = [''chg_fet_en'' \<mapsto> PyBool False, ''dsg_fet_en'' \<mapsto> PyBool False],
                cell_info = Map.empty\<rparr>,
        last_update_success = True\<rparr> []))))
     = [ChgDsgEnable (PyBool False) (PyBool False)]"
  using write_keeps_sibling_flag [where kept = "PyBool False" and h = "[]"
      and dev = "steady_device [''chg_fet_en'' \<mapsto> PyBool True, ''dsg_fet_en'' \<mapsto> PyBool True]"
      and c = "\<lparr>data = \<lparr>basic_info = [''chg_fet_en'' \<mapsto> PyBool False, ''dsg_fet_en'' \<mapsto> PyBool False],
                cell_info = Map.empty\<rparr>,
        last_update_success = True\<rparr>"]
  by (simp add: DISCHARGING_ENABLED_def CHARGING_ENABLED_def)


section \<open>Properties of the provisioning flow\<close>


lemma first_not_taken_None:
  "(\<forall>m. s \<le> m \<and> m < 65536 \<longrightarrow> py_in (PyInt m) taken) \<Longrightarrow> first_not_taken taken s = None"
proof (induction taken s rule: first_not_taken.induct)
  case (1 taken s)
  show ?case
  proof (cases "s < 65536")
    case True
    with "1.prems" have t: "py_in (PyInt s) taken" by simp
    from "1.prems" have "\<forall>m. s + 1 \<le> m \<and> m < 65536 \<longrightarrow> py_in (PyInt m) taken" by simp
    with "1.IH" True t have "first_not_taken taken (s + 1) = None" by simp
    with True t show ?thesis by (subst first_not_taken.simps) simp
  next
    case False
    then show ?thesis by (subst first_not_taken.simps) simp
  qed
qed


lemma taken_serial_nums_entry_data:
  "taken_serial_nums entry_data_getitem (map entry_with_serial ns) = Inr (map PyInt ns)"
  by (induction ns)
     (simp_all add: entry_data_getitem_def entry_with_serial_def getitem_def and_then_def
        ATTR_SERIAL_NUMBER_def)

lemma py_in_PyInt: "py_in (PyInt n) (map PyInt ns) = (n \<in> set ns)"
  by (induction ns) auto

lemma all_serials_taken_exhausted:
  "get_next_available_serial_number entry_data_getitem all_serials_taken = Inr None"
proof -
  have "first_not_taken (map PyInt [1..65535]) 1 = None"
    by (rule first_not_taken_None) (simp add: py_in_PyInt)
  then show ?thesis
    by (simp add: get_next_available_serial_number_def all_serials_taken_def
        taken_serial_nums_entry_data and_then_def)
qed

text \<open>
  Claim C8, as stated: with serial number 0 and consent denied the flow aborts with
  reason \<open>must_give_consent\<close>. The step does not abort: it returns the consent form
  again, carrying \<open>must_give_consent\<close> as a form error.
\<close>

theorem consent_denied_abort_counterexample:
  "fst (async_step_serial_number ConfigEntry_getitem (steady_device Map.empty) []
       unnumbered_device_info (Some [''consent'' \<mapsto> PyBool False]) [])
     = Inr (ShowForm ''serial_number'' [(''base'', ''must_give_consent'')])
   \<and> fst (async_step_serial_number ConfigEntry_getitem (steady_device Map.empty) []
       unnumbered_device_info (Some [''consent'' \<mapsto> PyBool False]) [])
     \<noteq> Inr (Abort ''must_give_consent'')"
  by (simp add: async_step_serial_number_def handle_consent_def getitem_def
      unnumbered_device_info_def ATTR_SERIAL_NUMBER_def)

text \<open>
  Claim C8, amended: when the stored device info holds serial number 0 and the user
  denies consent, the step shows the form \<open>serial_number\<close> again with the error
  \<open>must_give_consent\<close> (no abort, no entry created); \<open>init_info\<close> is unchanged, so no
  serial number is assigned, and no call is made to the device, so none is written.
\<close>

theorem consent_denied_shows_form:
  assumes "ui ''consent'' = Some consent"
    and "\<not> truthy consent"
    and "init_info ATTR_SERIAL_NUMBER = Some serial"
    and "py_eq serial (PyInt 0)"
  shows "async_step_serial_number subscript dev entries init_info (Some ui) h
           = (Inr (ShowForm ''serial_number'' [(''base'', ''must_give_consent'')]),
              init_info, h)"
  using assms
  by (simp add: async_step_serial_number_def handle_consent_def getitem_def)

theorem consent_denied_shows_form_witness:
  "async_step_serial_number ConfigEntry_getitem (steady_device Map.empty) []
       unnumbered_device_info (Some [''consent'' \<mapsto> PyBool False]) []
     = (Inr (ShowForm ''serial_number'' [(''base'', ''must_give_consent'')]),
        unnumbered_device_info, [])"
  using consent_denied_shows_form [where ui = "[''consent'' \<mapsto> PyBool False]"
      and consent = "PyBool False" and init_info = unnumbered_device_info
      and serial = "PyInt 0" and subscript = ConfigEntry_getitem
      and dev = "steady_device Map.empty" and entries = "[]" and h = "[]"]
  by (simp add: unnumbered_device_info_def ATTR_SERIAL_NUMBER_def)

text \<open>
  Claim C9. With consent given, the step is meant to assign the lowest serial number
  of \<open>[1, 65535]\<close> that no configured entry uses, and to abort with
  \<open>serial_numbers_exhausted\<close> when none is left. Two slips of the code break this, at
  two inputs. With one configured entry (serial number 1), collecting the taken
  numbers subscripts the entry object and raises \<open>TypeError\<close>: nothing is assigned
  where 2 should be. With every number taken (and the entries read through \<open>.data\<close>,
  as everywhere else in the flow), the result of \<open>async_abort\<close> is not returned: the
  step shows the consent form again instead of aborting.
\<close>

theorem next_serial_number_defects:
  "fst (async_step_serial_number ConfigEntry_getitem (steady_device Map.empty)
         [entry_with_serial 1] unnumbered_device_info (Some [''consent'' \<mapsto> PyBool True]) [])
     = Inl TypeError
   \<and> fst (async_step_serial_number entry_data_getitem (steady_device Map.empty)
         all_serials_taken unnumbered_device_info (Some [''consent'' \<mapsto> PyBool True]) [])
     = Inr (ShowForm ''serial_number'' [])"
proof
  show "fst (async_step_serial_number ConfigEntry_getitem (steady_device Map.empty)
         [entry_with_serial 1] unnumbered_device_info (Some [''consent'' \<mapsto> PyBool True]) [])
     = Inl TypeError"
    by (simp add: async_step_serial_number_def handle_consent_def getitem_def
        get_next_available_serial_number_def ConfigEntry_getitem_def and_then_def)
  show "fst (async_step_serial_number entry_data_getitem (steady_device Map.empty)
         all_serials_taken unnumbered_device_info (Some [''consent'' \<mapsto> PyBool True]) [])
     = Inr (ShowForm ''serial_number'' [])"
    by (simp add: async_step_serial_number_def handle_consent_def getitem_def
        all_serials_taken_exhausted unnumbered_device_info_def ATTR_SERIAL_NUMBER_def)
qed



end
